theory Spec2Isabelle
  imports Complex_Main "HOL-Library.Log_Nat"
begin

section \<open>Data model (app/models/schemas.py, app/config.py)\<close>

text \<open>
  A Python exception is a value; \<open>str\<close> is Python's \<open>str(e)\<close>. Every call that may raise
  returns \<open>exn + 'a\<close>, with \<open>Inl\<close> for the exception. Similarity scores and vector
  components are Python floats; they are only stored, compared with the bounds 0 and 1 and
  passed on, and are modelled as \<open>real\<close>.
\<close>

datatype exn = Exception string

fun str :: "exn \<Rightarrow> string" where
  "str (Exception msg) = msg"

record FAQ =
  id' :: string
  question :: string
  answer :: string
  category :: string
  keywords' :: "string list"

text \<open>The payload dictionary that \<open>index_faqs\<close> stores with each point.\<close>

record Payload =
  faq_id :: string
  question :: string
  answer :: string
  category :: string
  keywords' :: "string list"

record PointStruct =
  point_id :: nat
  vector :: "real list"
  payload :: Payload

text \<open>One hit of the vector store's search: \<open>result.payload\<close> and \<open>result.score\<close>.\<close>

record ScoredPoint =
  payload :: Payload
  score :: real

record RetrievedFAQ =
  faq_id :: string
  question :: string
  answer :: string
  category :: string
  similarity_score :: real

text \<open>
  The JSON body of POST /api/ask. \<open>query\<close> is declared with \<open>min_length=5\<close> and
  \<open>max_length=500\<close>: \<open>valid_request\<close> is that check, made before the handler runs. A
  string is the list of its characters, as Python counts them.
\<close>

record QueryRequest =
  query :: string
  include_sources :: bool

definition valid_request :: "QueryRequest \<Rightarrow> bool" where
  "valid_request request \<longleftrightarrow> 5 \<le> length (query request) \<and> length (query request) \<le> 500"

text \<open>
  \<open>QueryResponse.timestamp\<close> (the wall clock at construction) is read by no modelled
  code and is left out.
\<close>

record QueryResponse =
  answer :: string
  sources :: "RetrievedFAQ list"
  response_time_ms :: int

record HealthResponse =
  status :: string
  qdrant_connected :: bool
  openai_configured :: bool
  faqs_loaded :: int

datatype HTTPException = HTTPException int string

text \<open>The fields of \<open>Settings\<close> that the modelled handlers read.\<close>

record Settings =
  openai_api_key :: string
  top_k_results :: int
  similarity_threshold :: real

text \<open>
  A row of the \<open>interactions\<close> table. The two list columns hold \<open>json.dumps\<close> of the
  lists; the model keeps the lists. The \<open>timestamp\<close> column (SQLite's clock) is left out.
\<close>

record Interaction =
  row_id :: nat
  user_query :: string
  retrieved_faq_ids :: "string list"
  ai_response :: string
  response_time_ms :: int
  relevance_scores :: "real list"
  error_occurred :: bool

record Database =
  rows :: "Interaction list"
  last_rowid :: nat

section \<open>The environment: what the external services answer\<close>

text \<open>
  The OpenAI client, the Qdrant client, SQLite, the clock and the settings loader are
  outside the repository. Their answers to one run of a handler are the fields of
  \<open>Env\<close>:
  \<^item> \<open>embeddings_create texts\<close>: the embeddings API, returning \<open>response.data\<close> as the list
    of embedding vectors, or raising;
  \<^item> \<open>qdrant_search v k t f\<close>: \<open>client.search\<close> with limit, score threshold and optional
    category filter;
  \<^item> \<open>chat_completions_create messages\<close>: the chat API, returning the \<open>message.content\<close> of
    each choice (\<open>None\<close> when a choice carries no text), or raising;
  \<^item> \<open>get_settings\<close>: the settings loader, which raises when the configuration is invalid;
  \<^item> \<open>insert_fault_try\<close>, \<open>insert_fault_except\<close>: the exception (if any) that SQLite raises
    on the INSERT issued in the \<open>try\<close> block and in the \<open>except\<close> block of
    \<open>ask_question\<close>;
  \<^item> \<open>elapsed_try\<close>, \<open>elapsed_except\<close>: \<open>int((time.time() - start_time) * 1000)\<close> as read
    at those two places;
  \<^item> \<open>get_collection_fault\<close>, \<open>upsert_fault\<close>: the exception (if any) raised by
    \<open>client.get_collection\<close> and \<open>client.upsert\<close>;
  \<^item> \<open>load_faqs\<close>: reading and validating \<open>legal_faqs.json\<close>;
  \<^item> \<open>validation_error s\<close>: the error pydantic raises for a score outside \<open>[0, 1]\<close>;
  \<^item> \<open>format_2f\<close>: Python's \<open>:.2f\<close> float formatting;
  \<^item> \<open>unprocessable_detail body\<close>: the detail of the HTTP 422 with which the framework
    answers a body that fails validation.
\<close>

record Env =
  embeddings_create :: "string list \<Rightarrow> exn + real list list"
  qdrant_search :: "real list \<Rightarrow> int \<Rightarrow> real \<Rightarrow> string option \<Rightarrow> exn + ScoredPoint list"
  chat_completions_create :: "(string \<times> string) list \<Rightarrow> exn + string option list"
  get_settings :: "exn + Settings"
  insert_fault_try :: "exn option"
  insert_fault_except :: "exn option"
  elapsed_try :: int
  elapsed_except :: int
  get_collection_fault :: "exn option"
  upsert_fault :: "exn option"
  load_faqs :: "exn + FAQ list"
  validation_error :: "real \<Rightarrow> exn"
  format_2f :: "real \<Rightarrow> string"
  unprocessable_detail :: "QueryRequest \<Rightarrow> string"

text \<open>
  The calls a handler makes on the service objects, in order. A handler returns its
  result, the new state and this list.
\<close>

datatype call =
    GenerateEmbedding string
  | GenerateEmbeddingsBatch "string list"
  | Search "real list" int real
  | GetFaqCount
  | IndexFaqs "FAQ list" "real list list"
  | GenerateAnswer string "RetrievedFAQ list"
  | LogInteraction string "string list" string int "real list" bool

section \<open>EmbeddingService (app/services/embeddings.py)\<close>

text \<open>\<open>response.data[0]\<close> raises IndexError on an empty list; the handler re-raises.\<close>

definition generate_embedding :: "Env \<Rightarrow> string \<Rightarrow> exn + real list" where
  "generate_embedding env text =
     (case embeddings_create env [text] of
        Inl e \<Rightarrow> Inl e
      | Inr data \<Rightarrow>
          (case data of
             [] \<Rightarrow> Inl (Exception ''list index out of range'')
           | embedding # _ \<Rightarrow> Inr embedding))"

definition generate_embeddings_batch :: "Env \<Rightarrow> string list \<Rightarrow> exn + real list list" where
  "generate_embeddings_batch env texts =
     (case embeddings_create env texts of
        Inl e \<Rightarrow> Inl e
      | Inr data \<Rightarrow> Inr data)"

section \<open>FAQRetriever (app/services/retrieval.py)\<close>

text \<open>
  The collection is the list of its points. \<open>client.upsert\<close> replaces the point with the
  same id or adds the point; \<open>points_count\<close> is the number of points.
\<close>

fun upsert_point :: "PointStruct \<Rightarrow> PointStruct list \<Rightarrow> PointStruct list" where
  "upsert_point p [] = [p]"
| "upsert_point p (q # qs) =
     (if point_id q = point_id p then p # qs else q # upsert_point p qs)"

definition client_upsert :: "PointStruct list \<Rightarrow> PointStruct list \<Rightarrow> PointStruct list" where
  "client_upsert points coll = foldl (\<lambda>c p. upsert_point p c) coll points"

text \<open>The loop over \<open>enumerate(zip(faqs, embeddings))\<close>, starting at \<open>idx\<close>.\<close>

fun make_points :: "nat \<Rightarrow> FAQ list \<Rightarrow> real list list \<Rightarrow> PointStruct list" where
  "make_points idx (faq # faqs) (embedding # embeddings) =
     \<lparr>point_id = idx, vector = embedding,
      PointStruct.payload =
        \<lparr>Payload.faq_id = id' faq, Payload.question = FAQ.question faq,
         Payload.answer = FAQ.answer faq, Payload.category = FAQ.category faq,
         Payload.keywords' = FAQ.keywords' faq\<rparr>\<rparr>
     # make_points (Suc idx) faqs embeddings"
| "make_points idx _ _ = []"

definition index_faqs ::
  "Env \<Rightarrow> FAQ list \<Rightarrow> real list list \<Rightarrow> PointStruct list \<Rightarrow> exn + PointStruct list" where
  "index_faqs env faqs embeddings coll =
     (if length faqs \<noteq> length embeddings
      then Inl (Exception ''Number of FAQs must match number of embeddings'')
      else (case upsert_fault env of
              Some e \<Rightarrow> Inl e
            | None \<Rightarrow> Inr (client_upsert (make_points 0 faqs embeddings) coll)))"

text \<open>
  Building a \<open>RetrievedFAQ\<close> validates \<open>similarity_score\<close> against \<open>ge=0.0, le=1.0\<close>; the
  loop of \<open>search\<close> stops at the first hit that fails.
\<close>

definition to_retrieved :: "Env \<Rightarrow> ScoredPoint \<Rightarrow> exn + RetrievedFAQ" where
  "to_retrieved env result =
     (if 0 \<le> score result \<and> score result \<le> 1
      then Inr \<lparr>RetrievedFAQ.faq_id = Payload.faq_id (ScoredPoint.payload result),
                RetrievedFAQ.question = Payload.question (ScoredPoint.payload result),
                RetrievedFAQ.answer = Payload.answer (ScoredPoint.payload result),
                RetrievedFAQ.category = Payload.category (ScoredPoint.payload result),
                similarity_score = score result\<rparr>
      else Inl (validation_error env (score result)))"

fun collect_results :: "Env \<Rightarrow> ScoredPoint list \<Rightarrow> exn + RetrievedFAQ list" where
  "collect_results env [] = Inr []"
| "collect_results env (result # results) =
     (case to_retrieved env result of
        Inl e \<Rightarrow> Inl e
      | Inr faq \<Rightarrow>
          (case collect_results env results of
             Inl e \<Rightarrow> Inl e
           | Inr retrieved_faqs \<Rightarrow> Inr (faq # retrieved_faqs)))"

text \<open>\<open>if category_filter:\<close> is false for \<open>None\<close> and for the empty string.\<close>

definition search ::
  "Env \<Rightarrow> real list \<Rightarrow> int \<Rightarrow> real \<Rightarrow> string option \<Rightarrow> exn + RetrievedFAQ list" where
  "search env query_embedding top_k score_threshold category_filter =
     (case qdrant_search env query_embedding top_k score_threshold
             (if category_filter = None \<or> category_filter = Some [] then None
              else category_filter) of
        Inl e \<Rightarrow> Inl e
      | Inr results \<Rightarrow> collect_results env results)"

text \<open>Any exception of \<open>get_collection\<close> is caught and answered with 0.\<close>

definition get_faq_count :: "Env \<Rightarrow> PointStruct list \<Rightarrow> int" where
  "get_faq_count env coll =
     (case get_collection_fault env of
        Some e \<Rightarrow> 0
      | None \<Rightarrow> int (length coll))"

section \<open>AnswerGenerator (app/services/generation.py)\<close>

definition SYSTEM_PROMPT :: string where
  "SYSTEM_PROMPT =
     ''You are a helpful legal information assistant. Your role is to provide clear, accurate answers based on the FAQ context provided.\<newline>\<newline>Guidelines:\<newline>- Base your answer primarily on the provided FAQ context\<newline>- If the context doesn't fully answer the question, acknowledge what information is available\<newline>- Always include a disclaimer that this is general legal information, not legal advice\<newline>- Be concise but thorough\<newline>- Use plain language that non-lawyers can understand\<newline>- Suggest consulting with a qualified attorney for specific situations''"

text \<open>Decimal digits of a natural number, as an f-string prints \<open>idx\<close>.\<close>

fun str_nat :: "nat \<Rightarrow> string" where
  "str_nat n =
     (if n < 10 then [char_of (48 + n)]
      else str_nat (n div 10) @ [char_of (48 + n mod 10)])"

declare str_nat.simps [simp del]

fun join :: "string \<Rightarrow> string list \<Rightarrow> string" where
  "join sep [] = []"
| "join sep [x] = x"
| "join sep (x # y # ys) = x @ sep @ join sep (y # ys)"

fun context_parts :: "Env \<Rightarrow> nat \<Rightarrow> RetrievedFAQ list \<Rightarrow> string list" where
  "context_parts env idx [] = []"
| "context_parts env idx (faq # faqs) =
     [''\<newline>FAQ '' @ str_nat idx @ '' (Category: '' @ RetrievedFAQ.category faq
        @ '', Relevance: '' @ format_2f env (similarity_score faq) @ ''):'',
      ''Question: '' @ RetrievedFAQ.question faq,
      ''Answer: '' @ RetrievedFAQ.answer faq]
     @ context_parts env (Suc idx) faqs"

definition build_context :: "Env \<Rightarrow> RetrievedFAQ list \<Rightarrow> string" where
  "build_context env retrieved_faqs =
     (if retrieved_faqs = [] then ''No relevant FAQs were found in the database.''
      else join ''\<newline>''
             (''Here are the relevant FAQs from our database:\<newline>''
              # context_parts env 1 retrieved_faqs))"

definition build_user_prompt :: "string \<Rightarrow> string \<Rightarrow> string" where
  "build_user_prompt uq context =
     context @ ''\<newline>\<newline>User Question: '' @ uq
     @ ''\<newline>\<newline>Please provide a helpful answer based on the FAQ context above. If the context doesn't fully address the question, acknowledge the limitations and recommend consulting with an attorney.''"

definition get_fallback_response :: "RetrievedFAQ list \<Rightarrow> string" where
  "get_fallback_response retrieved_faqs =
     (case retrieved_faqs of
        [] \<Rightarrow> ''I apologize, but I'm unable to provide an answer at this time. Please try again later or consult with a legal professional.''
      | best_faq # _ \<Rightarrow>
          ''Based on our FAQ database:\<newline>\<newline>'' @ RetrievedFAQ.answer best_faq
          @ ''\<newline>\<newline>Note: This is general legal information from our FAQ database. For advice specific to your situation, please consult with a qualified attorney.\<newline>\<newline>(AI generation temporarily unavailable - showing direct FAQ match)'')"

text \<open>
  The \<open>try\<close> block: the chat call may raise, \<open>choices[0]\<close> raises on an empty list and
  \<open>len(answer)\<close> raises when the content is \<open>None\<close>. The model name, temperature and token
  limit are fixed per deployment and are part of what \<open>chat_completions_create\<close> answers.
\<close>

definition generate_answer_try :: "Env \<Rightarrow> string \<Rightarrow> RetrievedFAQ list \<Rightarrow> exn + string" where
  "generate_answer_try env uq retrieved_faqs =
     (let context = build_context env retrieved_faqs;
          user_prompt = build_user_prompt uq context
      in case chat_completions_create env
                [(''system'', SYSTEM_PROMPT), (''user'', user_prompt)] of
           Inl e \<Rightarrow> Inl e
         | Inr choices \<Rightarrow>
             (case choices of
                [] \<Rightarrow> Inl (Exception ''list index out of range'')
              | content # _ \<Rightarrow>
                  (case content of
                     None \<Rightarrow> Inl (Exception ''object of type 'NoneType' has no len()'')
                   | Some ans \<Rightarrow> Inr ans)))"

definition generate_answer :: "Env \<Rightarrow> string \<Rightarrow> RetrievedFAQ list \<Rightarrow> exn + string" where
  "generate_answer env uq retrieved_faqs =
     (case generate_answer_try env uq retrieved_faqs of
        Inr ans \<Rightarrow> Inr ans
      | Inl e \<Rightarrow> Inr (get_fallback_response retrieved_faqs))"

section \<open>Database (app/models/database.py)\<close>

text \<open>
  One INSERT in its own connection: either SQLite raises and the table is unchanged, or
  the row is committed under the next AUTOINCREMENT id, which is returned.
\<close>

definition log_interaction ::
  "exn option \<Rightarrow> string \<Rightarrow> string list \<Rightarrow> string \<Rightarrow> int \<Rightarrow> real list \<Rightarrow> bool \<Rightarrow> Database
     \<Rightarrow> exn + nat \<times> Database" where
  "log_interaction fault uq ids response ms scores err db =
     (case fault of
        Some e \<Rightarrow> Inl e
      | None \<Rightarrow>
          Inr (Suc (last_rowid db),
               \<lparr>rows = rows db @
                   [\<lparr>row_id = Suc (last_rowid db), user_query = uq, retrieved_faq_ids = ids,
                     ai_response = response, Interaction.response_time_ms = ms,
                     relevance_scores = scores, error_occurred = err\<rparr>],
                last_rowid = Suc (last_rowid db)\<rparr>))"

subsection \<open>Statistics\<close>

text \<open>
  \<open>get_stats\<close> lets SQLite compute \<open>COUNT(*)\<close>, \<open>AVG(response_time_ms)\<close> and
  \<open>SUM(CASE WHEN error_occurred THEN 1 ELSE 0 END)\<close> and rounds the average with Python's
  \<open>round(x, 2)\<close>. The average is a double and \<open>round\<close> works on its binary value, so
  doubles are modelled: a double is the rational number it denotes, and \<open>to_double x\<close> is
  the double nearest to \<open>x\<close>, ties to the even significand (53 bits). The exponent range
  is not bounded: quotients of 64-bit integers and two-decimal numbers of that size lie
  in the range of normal doubles.
\<close>

definition round_half_even :: "rat \<Rightarrow> int" where
  "round_half_even x =
     (let f = \<lfloor>x\<rfloor>; d = x - of_int f
      in if d < 1 / 2 then f else if 1 / 2 < d then f + 1
         else if even f then f else f + 1)"

text \<open>The exponent \<open>e\<close> with \<open>2^e \<le> |x| < 2^(e+1)\<close>, for \<open>x \<noteq> 0\<close>.\<close>

definition exponent :: "rat \<Rightarrow> int" where
  "exponent x =
     (let (p, q) = quotient_of \<bar>x\<bar>; e0 = bitlen p - bitlen q
      in if 2 powi e0 \<le> \<bar>x\<bar> then e0 else e0 - 1)"

definition to_double :: "rat \<Rightarrow> rat" where
  "to_double x =
     (if x = 0 then 0
      else (let ulp = 2 powi (exponent x - 52)
            in of_int (round_half_even (x / ulp)) * ulp))"

text \<open>
  Python's \<open>round(x, 2)\<close> on a float: the decimal with two places nearest to the binary
  value of \<open>x\<close> (ties to even), converted back to the nearest double.
\<close>

definition py_round2 :: "rat \<Rightarrow> rat" where
  "py_round2 x = to_double (of_int (round_half_even (x * 100)) / 100)"

text \<open>
  SQLite's \<open>AVG\<close> over an INTEGER column divides the sum by the count in doubles,
  \<open>(double)sum / (double)count\<close>; \<open>AVG\<close> and \<open>SUM\<close> over no rows are NULL (\<open>None\<close>).
\<close>

definition double_quotient :: "int \<Rightarrow> int \<Rightarrow> rat" where
  "double_quotient s n = to_double (to_double (of_int s) / to_double (of_int n))"

definition sql_count :: "'a list \<Rightarrow> int" where
  "sql_count xs = int (length xs)"

definition sql_avg :: "int list \<Rightarrow> rat option" where
  "sql_avg xs =
     (if xs = [] then None else Some (double_quotient (sum_list xs) (int (length xs))))"

definition sql_sum :: "int list \<Rightarrow> int option" where
  "sql_sum xs = (if xs = [] then None else Some (sum_list xs))"

text \<open>Python's \<open>v or 0\<close>: 0 when \<open>v\<close> is \<open>None\<close> or zero, else \<open>v\<close>.\<close>

definition or_0 :: "'a::zero option \<Rightarrow> 'a" where
  "or_0 v = (case v of None \<Rightarrow> 0 | Some x \<Rightarrow> if x = 0 then 0 else x)"

record Stats =
  total_queries :: int
  avg_response_time_ms :: rat
  total_errors :: int

text \<open>
  The SELECT is taken to answer; an exception of SQLite is not caught by \<open>get_stats\<close>.
\<close>

definition get_stats :: "Database \<Rightarrow> Stats" where
  "get_stats db =
     (let row0 = sql_count (rows db);
          row1 = sql_avg (map Interaction.response_time_ms (rows db));
          row2 = sql_sum (map (\<lambda>r. if error_occurred r then 1 else 0) (rows db))
      in \<lparr>total_queries = or_0 (Some row0),
          avg_response_time_ms = py_round2 (or_0 row1),
          total_errors = or_0 row2\<rparr>)"

text \<open>
  Following the specification's words: the arithmetic mean of the elapsed times, and
  that mean rounded to 2 decimals (a tie goes up).
\<close>

definition arithmetic_mean :: "int list \<Rightarrow> rat" where
  "arithmetic_mean xs = of_int (sum_list xs) / of_int (int (length xs))"

definition mean_rounded_2_decimals :: "int list \<Rightarrow> rat" where
  "mean_rounded_2_decimals xs = of_int (round (arithmetic_mean xs * 100)) / 100"

section \<open>Route handlers (app/api/routes.py)\<close>

definition NOT_FOUND_ANSWER :: string where
  "NOT_FOUND_ANSWER =
     ''I couldn't find any relevant information in our FAQ database for your question. ''
     @ ''This might be outside the scope of our current knowledge base. ''
     @ ''Please consider rephrasing your question or consulting with a legal professional directly.''"

definition GENERIC_DETAIL :: string where
  "GENERIC_DETAIL = ''An error occurred while processing your question. Please try again.''"

text \<open>The \<open>try\<close> block of \<open>ask_question\<close>: the first exception raised ends it.\<close>

definition ask_try ::
  "Env \<Rightarrow> QueryRequest \<Rightarrow> Database \<Rightarrow> (exn + QueryResponse) \<times> Database \<times> call list" where
  "ask_try env request db =
     (case generate_embedding env (query request) of
        Inl e \<Rightarrow> (Inl e, db, [GenerateEmbedding (query request)])
      | Inr query_embedding \<Rightarrow>
     (case get_settings env of
        Inl e \<Rightarrow> (Inl e, db, [GenerateEmbedding (query request)])
      | Inr settings \<Rightarrow>
     (let calls2 = [GenerateEmbedding (query request),
                    Search query_embedding (top_k_results settings)
                      (similarity_threshold settings)]
      in case search env query_embedding (top_k_results settings)
                (similarity_threshold settings) None of
        Inl e \<Rightarrow> (Inl e, db, calls2)
      | Inr retrieved_faqs \<Rightarrow>
     (case (if retrieved_faqs = [] then (Inr (NOT_FOUND_ANSWER, []), calls2)
            else ((case generate_answer env (query request) retrieved_faqs of
                     Inl e \<Rightarrow> Inl e
                   | Inr ans \<Rightarrow>
                       Inr (ans, if include_sources request then retrieved_faqs else [])),
                  calls2 @ [GenerateAnswer (query request) retrieved_faqs])) of
        (Inl e, calls3) \<Rightarrow> (Inl e, db, calls3)
      | (Inr (ans, srcs), calls3) \<Rightarrow>
     (let ms = elapsed_try env;
          calls4 = calls3 @
            [LogInteraction (query request) (map RetrievedFAQ.faq_id retrieved_faqs) ans
               ms (map similarity_score retrieved_faqs) False]
      in case log_interaction (insert_fault_try env) (query request)
                (map RetrievedFAQ.faq_id retrieved_faqs) ans ms
                (map similarity_score retrieved_faqs) False db of
        Inl e \<Rightarrow> (Inl e, db, calls4)
      | Inr (rowid, db') \<Rightarrow>
          (Inr \<lparr>QueryResponse.answer = ans, sources = srcs,
                QueryResponse.response_time_ms = ms\<rparr>,
           db', calls4))))))"

text \<open>
  \<open>ask_question\<close>: the \<open>except\<close> block writes the error entry, swallows a failure of that
  write and raises the HTTP 500.
\<close>

definition ask_question ::
  "Env \<Rightarrow> QueryRequest \<Rightarrow> Database
     \<Rightarrow> (HTTPException + QueryResponse) \<times> Database \<times> call list" where
  "ask_question env request db =
     (case ask_try env request db of
        (Inr response, db', calls) \<Rightarrow> (Inr response, db', calls)
      | (Inl e, db', calls) \<Rightarrow>
          (let ms = elapsed_except env;
               calls' = calls @
                 [LogInteraction (query request) [] (''Error: '' @ str e) ms
                    [] True]
           in case log_interaction (insert_fault_except env) (query request) []
                     (''Error: '' @ str e) ms [] True db' of
                Inl log_error \<Rightarrow> (Inl (HTTPException 500 GENERIC_DETAIL), db', calls')
              | Inr (rowid, db'') \<Rightarrow> (Inl (HTTPException 500 GENERIC_DETAIL), db'', calls')))"

text \<open>
  The endpoint POST /api/ask (\<open>@router.post("/ask")\<close> with a \<open>QueryRequest\<close> body): a body
  that fails validation is answered with the HTTP 422 and \<open>ask_question\<close> is not run.
\<close>

definition post_ask ::
  "Env \<Rightarrow> QueryRequest \<Rightarrow> Database
     \<Rightarrow> (HTTPException + QueryResponse) \<times> Database \<times> call list" where
  "post_ask env request db =
     (if valid_request request then ask_question env request db
      else (Inl (HTTPException 422 (unprocessable_detail env request)), db, []))"

text \<open>
  \<open>health_check\<close>: \<open>get_faq_count\<close> cannot raise; \<open>get_settings\<close> can, and then the
  \<open>except\<close> block answers.
\<close>

definition health_check :: "Env \<Rightarrow> PointStruct list \<Rightarrow> HealthResponse" where
  "health_check env coll =
     (let faq_count = get_faq_count env coll;
          connected = (faq_count \<ge> 0)
      in case get_settings env of
           Inl e \<Rightarrow>
             \<lparr>status = ''unhealthy'', qdrant_connected = False, openai_configured = False,
              faqs_loaded = 0\<rparr>
         | Inr settings \<Rightarrow>
             (let configured = (openai_api_key settings \<noteq> [])
              in \<lparr>status = (if connected \<and> configured then ''healthy'' else ''degraded''),
                  qdrant_connected = connected, openai_configured = configured,
                  faqs_loaded = faq_count\<rparr>))"

section \<open>Startup indexing (app/main.py)\<close>

text \<open>
  The part of \<open>startup_event\<close> that loads and indexes the FAQs, on the collection
  \<open>coll\<close>. An exception leaves the collection as it was and ends the startup.
\<close>

definition startup_indexing ::
  "Env \<Rightarrow> PointStruct list \<Rightarrow> (exn + unit) \<times> PointStruct list \<times> call list" where
  "startup_indexing env coll =
     (let faq_count = get_faq_count env coll
      in if faq_count = 0 then
           (case load_faqs env of
              Inl e \<Rightarrow> (Inl e, coll, [GetFaqCount])
            | Inr faqs \<Rightarrow>
                (let questions = map FAQ.question faqs
                 in case generate_embeddings_batch env questions of
                      Inl e \<Rightarrow> (Inl e, coll, [GetFaqCount, GenerateEmbeddingsBatch questions])
                    | Inr embeddings \<Rightarrow>
                        (case index_faqs env faqs embeddings coll of
                           Inl e \<Rightarrow>
                             (Inl e, coll,
                              [GetFaqCount, GenerateEmbeddingsBatch questions,
                               IndexFaqs faqs embeddings])
                         | Inr coll' \<Rightarrow>
                             (Inr (), coll',
                              [GetFaqCount, GenerateEmbeddingsBatch questions,
                               IndexFaqs faqs embeddings]))))
         else (Inr (), coll, [GetFaqCount]))"

section \<open>Concrete environments\<close>

text \<open>
  A deployment in which every service answers: one FAQ is found with score 0.85, the
  model answers, the stores accept writes. The other environments change one answer each.
\<close>

definition payload1 :: Payload where
  "payload1 =
     \<lparr>Payload.faq_id = ''faq_001'',
      Payload.question = ''What should I do after a car accident?'',
      Payload.answer = ''Call the police and exchange insurance details.'',
      Payload.category = ''Personal Injury'',
      Payload.keywords' = [''accident'']\<rparr>"

definition retrieved1 :: RetrievedFAQ where
  "retrieved1 =
     \<lparr>RetrievedFAQ.faq_id = ''faq_001'',
      RetrievedFAQ.question = ''What should I do after a car accident?'',
      RetrievedFAQ.answer = ''Call the police and exchange insurance details.'',
      RetrievedFAQ.category = ''Personal Injury'',
      similarity_score = 85 / 100\<rparr>"

definition point1 :: PointStruct where
  "point1 = \<lparr>point_id = 0, vector = [1, 0], PointStruct.payload = payload1\<rparr>"

definition settings0 :: Settings where
  "settings0 =
     \<lparr>openai_api_key = ''sk-test'', top_k_results = 2, similarity_threshold = 6 / 10\<rparr>"

definition env_ok :: Env where
  "env_ok =
     \<lparr>embeddings_create = (\<lambda>texts. Inr (map (\<lambda>t. [1, 0]) texts)),
      qdrant_search =
        (\<lambda>v k t f. Inr [\<lparr>ScoredPoint.payload = payload1, score = 85 / 100\<rparr>]),
      chat_completions_create = (\<lambda>messages. Inr [Some ''Call the police first.'']),
      get_settings = Inr settings0,
      insert_fault_try = None,
      insert_fault_except = None,
      elapsed_try = 120,
      elapsed_except = 45,
      get_collection_fault = None,
      upsert_fault = None,
      load_faqs = Inr [],
      validation_error = (\<lambda>s. Exception ''1 validation error for RetrievedFAQ''),
      format_2f = (\<lambda>s. ''0.85''),
      unprocessable_detail = (\<lambda>body. ''String should have at least 5 characters'')\<rparr>"

definition env_no_match :: Env where
  "env_no_match = env_ok\<lparr>qdrant_search := (\<lambda>v k t f. Inr [])\<rparr>"

definition env_llm_down :: Env where
  "env_llm_down =
     env_ok\<lparr>chat_completions_create := (\<lambda>messages. Inl (Exception ''Connection error.''))\<rparr>"

definition env_embedding_down :: Env where
  "env_embedding_down =
     env_ok\<lparr>embeddings_create := (\<lambda>texts. Inl (Exception ''Connection error.''))\<rparr>"

definition env_all_down :: Env where
  "env_all_down =
     env_embedding_down\<lparr>insert_fault_except := Some (Exception ''database is locked'')\<rparr>"

definition env_qdrant_down :: Env where
  "env_qdrant_down =
     env_ok\<lparr>get_collection_fault := Some (Exception ''Connection refused'')\<rparr>"

definition env_insert_refused :: Env where
  "env_insert_refused = env_ok\<lparr>insert_fault_try := Some (Exception ''database is locked'')\<rparr>"

definition env_no_match_insert_refused :: Env where
  "env_no_match_insert_refused =
     env_no_match\<lparr>insert_fault_try := Some (Exception ''database is locked'')\<rparr>"

definition faq1 :: FAQ where
  "faq1 =
     \<lparr>id' = ''faq_001'',
      FAQ.question = ''What should I do after a car accident?'',
      FAQ.answer = ''Call the police and exchange insurance details.'',
      FAQ.category = ''Personal Injury'',
      FAQ.keywords' = [''accident'']\<rparr>"

definition env_count_fault :: Env where
  "env_count_fault =
     env_ok\<lparr>get_collection_fault := Some (Exception ''timed out''),
            load_faqs := Inr [faq1]\<rparr>"

definition request0 :: QueryRequest where
  "request0 = \<lparr>query = ''What should I do after a car accident?'', include_sources = True\<rparr>"

definition db0 :: Database where
  "db0 = \<lparr>rows = [], last_rowid = 0\<rparr>"

text \<open>
  A log of 40 requests: 39 answered in 2 ms each and one that failed after 29 ms. The
  times sum to 107, the mean is 2.675.
\<close>

definition timed_row :: "nat \<times> int \<times> bool \<Rightarrow> Interaction" where
  "timed_row r =
     \<lparr>row_id = fst r, user_query = ''What should I do after a car accident?'',
      retrieved_faq_ids = [], ai_response = ''Logged answer'',
      Interaction.response_time_ms = fst (snd r), relevance_scores = [],
      error_occurred = snd (snd r)\<rparr>"

definition db_mean_2675 :: Database where
  "db_mean_2675 =
     \<lparr>rows = map timed_row
               (zip [1..<41] (replicate 39 (2, False) @ [(29, True)])),
      last_rowid = 40\<rparr>"

section \<open>Facts about the services\<close>

lemma generate_answer_returns: "\<exists>a. generate_answer env uq faqs = Inr a"
  by (simp add: generate_answer_def split: sum.splits)

lemma generate_answer_except:
  "generate_answer_try env uq faqs = Inl e \<Longrightarrow>
     generate_answer env uq faqs = Inr (get_fallback_response faqs)"
  by (simp add: generate_answer_def)

text \<open>The \<open>try\<close> block either raises and leaves the table alone, or appends one row.\<close>

lemma ask_try_db:
  "ask_try env request db = (r, db', calls) \<Longrightarrow>
     (\<exists>e. r = Inl e \<and> db' = db) \<or>
     (\<exists>x row. r = Inr x \<and> insert_fault_try env = None \<and>
        db' = \<lparr>rows = rows db @ [row], last_rowid = Suc (last_rowid db)\<rparr>)"
  unfolding ask_try_def log_interaction_def
  by (auto simp: Let_def split: sum.splits option.splits prod.splits if_splits)

text \<open>What the \<open>except\<close> block does with the exception \<open>e\<close> of the \<open>try\<close> block.\<close>

lemma ask_question_except:
  "ask_try env request db = (Inl e, db1, calls) \<Longrightarrow>
   ask_question env request db =
     (Inl (HTTPException 500 GENERIC_DETAIL),
      (case insert_fault_except env of
         None \<Rightarrow>
           \<lparr>rows = rows db @
              [\<lparr>row_id = Suc (last_rowid db), user_query = query request,
                retrieved_faq_ids = [], ai_response = ''Error: '' @ str e,
                Interaction.response_time_ms = elapsed_except env, relevance_scores = [],
                error_occurred = True\<rparr>],
            last_rowid = Suc (last_rowid db)\<rparr>
       | Some log_error \<Rightarrow> db),
      calls @ [LogInteraction (query request) [] (''Error: '' @ str e) (elapsed_except env)
                 [] True])"
  using ask_try_db [of env request db "Inl e" db1 calls]
  by (auto simp: ask_question_def log_interaction_def Let_def split: option.splits)

lemma ask_question_return:
  "ask_try env request db = (Inr response, db1, calls) \<Longrightarrow>
   ask_question env request db = (Inr response, db1, calls)"
  by (simp add: ask_question_def)

text \<open>The \<open>try\<close> block when the search finds nothing, and when it finds something.\<close>

lemma ask_try_no_results:
  assumes "generate_embedding env (query request) = Inr query_embedding"
    and "get_settings env = Inr settings"
    and "search env query_embedding (top_k_results settings) (similarity_threshold settings)
           None = Inr []"
  shows "ask_try env request db =
     (case insert_fault_try env of
        Some e \<Rightarrow>
          (Inl e, db,
           [GenerateEmbedding (query request),
            Search query_embedding (top_k_results settings) (similarity_threshold settings),
            LogInteraction (query request) [] NOT_FOUND_ANSWER (elapsed_try env) [] False])
      | None \<Rightarrow>
          (Inr \<lparr>QueryResponse.answer = NOT_FOUND_ANSWER, sources = [],
                QueryResponse.response_time_ms = elapsed_try env\<rparr>,
           \<lparr>rows = rows db @
              [\<lparr>row_id = Suc (last_rowid db), user_query = query request,
                retrieved_faq_ids = [], ai_response = NOT_FOUND_ANSWER,
                Interaction.response_time_ms = elapsed_try env, relevance_scores = [],
                error_occurred = False\<rparr>],
            last_rowid = Suc (last_rowid db)\<rparr>,
           [GenerateEmbedding (query request),
            Search query_embedding (top_k_results settings) (similarity_threshold settings),
            LogInteraction (query request) [] NOT_FOUND_ANSWER (elapsed_try env) [] False]))"
  using assms
  by (simp add: ask_try_def log_interaction_def Let_def split: option.splits)

lemma ask_try_results:
  assumes "generate_embedding env (query request) = Inr query_embedding"
    and "get_settings env = Inr settings"
    and "search env query_embedding (top_k_results settings) (similarity_threshold settings)
           None = Inr retrieved_faqs"
    and "retrieved_faqs \<noteq> []"
    and "generate_answer env (query request) retrieved_faqs = Inr ans"
  shows "ask_try env request db =
     (case insert_fault_try env of
        Some e \<Rightarrow>
          (Inl e, db,
           [GenerateEmbedding (query request),
            Search query_embedding (top_k_results settings) (similarity_threshold settings),
            GenerateAnswer (query request) retrieved_faqs,
            LogInteraction (query request) (map RetrievedFAQ.faq_id retrieved_faqs) ans
              (elapsed_try env) (map similarity_score retrieved_faqs) False])
      | None \<Rightarrow>
          (Inr \<lparr>QueryResponse.answer = ans,
                sources = (if include_sources request then retrieved_faqs else []),
                QueryResponse.response_time_ms = elapsed_try env\<rparr>,
           \<lparr>rows = rows db @
              [\<lparr>row_id = Suc (last_rowid db), user_query = query request,
                retrieved_faq_ids = map RetrievedFAQ.faq_id retrieved_faqs,
                ai_response = ans,
                Interaction.response_time_ms = elapsed_try env,
                relevance_scores = map similarity_score retrieved_faqs,
                error_occurred = False\<rparr>],
            last_rowid = Suc (last_rowid db)\<rparr>,
           [GenerateEmbedding (query request),
            Search query_embedding (top_k_results settings) (similarity_threshold settings),
            GenerateAnswer (query request) retrieved_faqs,
            LogInteraction (query request) (map RetrievedFAQ.faq_id retrieved_faqs) ans
              (elapsed_try env) (map similarity_score retrieved_faqs) False]))"
  using assms
  by (simp add: ask_try_def log_interaction_def Let_def split: option.splits)

lemma ask_try_generate_calls:
  "ask_try env request db = (r, db', calls) \<Longrightarrow> GenerateAnswer uq faqs \<in> set calls \<Longrightarrow>
     faqs \<noteq> []"
  unfolding ask_try_def
  by (auto simp: Let_def split: sum.splits option.splits prod.splits if_splits)

section \<open>One log entry per request\<close>

text \<open>
  Claim C1, as the specification states it: every request to POST /api/ask, whether it
  succeeds or fails, writes exactly one interaction log entry, never zero and never two.

  This fails for a valid request when the log store refuses the write of the error path:
  the embedding call raises, the \<open>except\<close> block tries to write the error entry, SQLite
  raises, the handler swallows that and the table has gained no row.
\<close>

theorem post_ask_writes_nothing_when_store_down:
  "valid_request request0
   \<and> length (rows (fst (snd (post_ask env_all_down request0 db0)))) = length (rows db0)
   \<and> length (rows (fst (snd (post_ask env_all_down request0 db0))))
       \<noteq> length (rows db0) + 1"
  by (simp add: post_ask_def valid_request_def ask_question_def ask_try_def
      generate_embedding_def log_interaction_def
      env_all_down_def env_embedding_down_def env_ok_def request0_def db0_def)

text \<open>What \<open>ask_question\<close> does to the table, for every request it handles.\<close>

lemma ask_question_rows:
  "(rows (fst (snd (ask_question env request db))) = rows db
      \<or> (\<exists>row. rows (fst (snd (ask_question env request db))) = rows db @ [row]))
   \<and> (insert_fault_except env = None \<longrightarrow>
        (\<exists>row. rows (fst (snd (ask_question env request db))) = rows db @ [row]))
   \<and> (rows (fst (snd (ask_question env request db))) = rows db \<longrightarrow>
        insert_fault_except env \<noteq> None
        \<and> fst (ask_question env request db) = Inl (HTTPException 500 GENERIC_DETAIL))"
proof -
  obtain r db1 calls where t: "ask_try env request db = (r, db1, calls)"
    by (cases "ask_try env request db") auto
  show ?thesis
  proof (cases r)
    case (Inl e)
    with t show ?thesis
      by (auto simp: ask_question_except split: option.splits)
  next
    case (Inr response)
    with t ask_try_db [OF t] show ?thesis
      by (auto simp: ask_question_return)
  qed
qed

text \<open>
  Claim C1, amended: every request to POST /api/ask appends at most one entry to the
  interaction log and leaves the earlier entries as they were (never two). A request
  whose body passes validation (a query of 5 to 500 characters) appends exactly one
  whenever the store accepts the write of the error path, in particular whenever the
  store accepts writes; it appends none only when it fails with the HTTP 500 and the
  write of the error entry is itself refused. A request whose body fails validation is
  answered with the HTTP 422 before the handler runs: it appends no entry and calls no
  service.
\<close>

theorem post_ask_at_most_one_entry:
  "(rows (fst (snd (post_ask env request db))) = rows db
      \<or> (\<exists>row. rows (fst (snd (post_ask env request db))) = rows db @ [row]))
   \<and> (valid_request request \<and> insert_fault_except env = None \<longrightarrow>
        (\<exists>row. rows (fst (snd (post_ask env request db))) = rows db @ [row]))
   \<and> (valid_request request \<and> rows (fst (snd (post_ask env request db))) = rows db \<longrightarrow>
        insert_fault_except env \<noteq> None
        \<and> fst (post_ask env request db) = Inl (HTTPException 500 GENERIC_DETAIL))
   \<and> (\<not> valid_request request \<longrightarrow>
        post_ask env request db =
          (Inl (HTTPException 422 (unprocessable_detail env request)), db, []))"
proof (cases "valid_request request")
  case True
  with ask_question_rows [of env request db] show ?thesis
    by (simp add: post_ask_def)
next
  case False
  then show ?thesis
    by (simp add: post_ask_def)
qed

text \<open>
  Claim C1, amended, where every service answers: a valid request appends one entry, and
  the two-character query "hi" appends none.
\<close>

theorem post_ask_at_most_one_entry_witness:
  "valid_request request0 \<and> insert_fault_except env_ok = None
   \<and> length (rows (fst (snd (post_ask env_ok request0 db0)))) = length (rows db0) + 1
   \<and> \<not> valid_request (request0\<lparr>query := ''hi''\<rparr>)
   \<and> rows (fst (snd (post_ask env_ok (request0\<lparr>query := ''hi''\<rparr>) db0))) = rows db0"
proof -
  have v: "valid_request request0"
    by (simp add: valid_request_def request0_def)
  have h: "insert_fault_except env_ok = None"
    by (simp add: env_ok_def)
  have n: "\<not> valid_request (request0\<lparr>query := ''hi''\<rparr>)"
    by (simp add: valid_request_def)
  from post_ask_at_most_one_entry [of env_ok request0 db0] v h
  obtain row where "rows (fst (snd (post_ask env_ok request0 db0))) = rows db0 @ [row]"
    by blast
  moreover from post_ask_at_most_one_entry [of env_ok "request0\<lparr>query := ''hi''\<rparr>" db0] n
  have "rows (fst (snd (post_ask env_ok (request0\<lparr>query := ''hi''\<rparr>) db0))) = rows db0"
    by simp
  ultimately show ?thesis using v h n by simp
qed

section \<open>No matching FAQ\<close>

text \<open>
  Claim C2, as the specification states it: for every valid query for which the search
  returns an empty list, the response's answer is the fixed "not found" message, its
  sources are empty, and one log entry is written with \<open>error_occurred\<close> false, no
  retrieved ids and no scores.

  This fails when the store refuses the entry of the success path: the query is valid,
  the search returns the empty list, and the handler answers the HTTP 500 and stores the
  error entry, with \<open>error_occurred\<close> true.
\<close>

theorem post_ask_no_results_store_refuses:
  "valid_request request0
   \<and> generate_embedding env_no_match_insert_refused (query request0) = Inr [1, 0]
   \<and> get_settings env_no_match_insert_refused = Inr settings0
   \<and> search env_no_match_insert_refused [1, 0] (top_k_results settings0)
        (similarity_threshold settings0) None = Inr []
   \<and> fst (post_ask env_no_match_insert_refused request0 db0) =
       Inl (HTTPException 500
              ''An error occurred while processing your question. Please try again.'')
   \<and> map error_occurred (rows (fst (snd (post_ask env_no_match_insert_refused request0 db0))))
       = [True]
   \<and> map ai_response (rows (fst (snd (post_ask env_no_match_insert_refused request0 db0))))
       = [''Error: database is locked'']"
  by (simp add: post_ask_def valid_request_def ask_question_def ask_try_def
      generate_embedding_def search_def log_interaction_def GENERIC_DETAIL_def
      env_no_match_insert_refused_def env_no_match_def env_ok_def settings0_def
      request0_def db0_def Let_def)

text \<open>
  Claim C2, amended: for every valid query for which the search returns an empty list and
  the log store accepts the entry written by the success path, the response's answer is
  the fixed message "I couldn't find any relevant information in our FAQ database for
  your question. This might be outside the scope of our current knowledge base. Please
  consider rephrasing your question or consulting with a legal professional directly.",
  its sources are empty, and exactly one log entry is written, with that answer,
  \<open>error_occurred\<close> false, no retrieved ids and no scores. When the store refuses that
  entry, the request is answered with the generic HTTP 500 instead, and the only entry
  written is the error entry (\<open>error_occurred\<close> true), if the store accepts it.
\<close>

theorem post_ask_no_results:
  assumes "valid_request request"
    and "generate_embedding env (query request) = Inr query_embedding"
    and "get_settings env = Inr settings"
    and "search env query_embedding (top_k_results settings) (similarity_threshold settings)
           None = Inr []"
  shows "(insert_fault_try env = None \<longrightarrow>
      fst (post_ask env request db) =
        Inr \<lparr>QueryResponse.answer =
               ''I couldn't find any relevant information in our FAQ database for your question. This might be outside the scope of our current knowledge base. Please consider rephrasing your question or consulting with a legal professional directly.'',
             sources = [], QueryResponse.response_time_ms = elapsed_try env\<rparr>
      \<and> rows (fst (snd (post_ask env request db))) =
          rows db @
            [\<lparr>row_id = Suc (last_rowid db), user_query = query request,
              retrieved_faq_ids = [],
              ai_response =
                ''I couldn't find any relevant information in our FAQ database for your question. This might be outside the scope of our current knowledge base. Please consider rephrasing your question or consulting with a legal professional directly.'',
              Interaction.response_time_ms = elapsed_try env, relevance_scores = [],
              error_occurred = False\<rparr>])
    \<and> (\<forall>log_error. insert_fault_try env = Some log_error \<longrightarrow>
      fst (post_ask env request db) = Inl (HTTPException 500 GENERIC_DETAIL)
      \<and> rows (fst (snd (post_ask env request db))) =
          (case insert_fault_except env of
             None \<Rightarrow>
               rows db @
                 [\<lparr>row_id = Suc (last_rowid db), user_query = query request,
                   retrieved_faq_ids = [], ai_response = ''Error: '' @ str log_error,
                   Interaction.response_time_ms = elapsed_except env, relevance_scores = [],
                   error_occurred = True\<rparr>]
           | Some e \<Rightarrow> rows db))"
proof (cases "insert_fault_try env")
  case None
  with ask_try_no_results [OF assms(2-4), of db] assms(1) show ?thesis
    by (simp add: post_ask_def ask_question_return NOT_FOUND_ANSWER_def)
next
  case (Some log_error)
  with ask_try_no_results [OF assms(2-4), of db] assms(1) show ?thesis
    by (simp add: post_ask_def ask_question_except split: option.splits)
qed

text \<open>
  Claim C2, amended, where the search finds nothing and the store accepts the entry.
\<close>

theorem post_ask_no_results_witness:
  "valid_request request0
   \<and> generate_embedding env_no_match (query request0) = Inr [1, 0]
   \<and> get_settings env_no_match = Inr settings0
   \<and> search env_no_match [1, 0] (top_k_results settings0) (similarity_threshold settings0)
       None = Inr []
   \<and> insert_fault_try env_no_match = None
   \<and> fst (post_ask env_no_match request0 db0) =
       Inr \<lparr>QueryResponse.answer =
              ''I couldn't find any relevant information in our FAQ database for your question. This might be outside the scope of our current knowledge base. Please consider rephrasing your question or consulting with a legal professional directly.'',
            sources = [], QueryResponse.response_time_ms = 120\<rparr>
   \<and> map error_occurred (rows (fst (snd (post_ask env_no_match request0 db0)))) = [False]"
proof -
  have v: "valid_request request0"
    by (simp add: valid_request_def request0_def)
  have h1: "generate_embedding env_no_match (query request0) = Inr [1, 0]"
    by (simp add: generate_embedding_def env_no_match_def env_ok_def)
  have h2: "get_settings env_no_match = Inr settings0"
    by (simp add: env_no_match_def env_ok_def)
  have h3: "search env_no_match [1, 0] (top_k_results settings0)
              (similarity_threshold settings0) None = Inr []"
    by (simp add: search_def env_no_match_def env_ok_def)
  have h4: "insert_fault_try env_no_match = None"
    by (simp add: env_no_match_def env_ok_def)
  have h5: "elapsed_try env_no_match = 120"
    by (simp add: env_no_match_def env_ok_def)
  from post_ask_no_results [OF v h1 h2 h3, of db0] v h1 h2 h3 h4 h5 show ?thesis
    by (simp add: db0_def)
qed

section \<open>Source attribution\<close>

text \<open>
  Claim C3: for every query whose retrieval returns at least one item, the response's
  sources are the retrieved items exactly when the request's \<open>include_sources\<close> flag is
  true, and the empty list when the flag is false, whatever retrieval returned.

  The handler gives a response whenever the store accepts the log entry, and the sources
  of every response it gives are as claimed.
\<close>

theorem ask_question_sources:
  assumes "generate_embedding env (query request) = Inr query_embedding"
    and "get_settings env = Inr settings"
    and "search env query_embedding (top_k_results settings) (similarity_threshold settings)
           None = Inr retrieved_faqs"
    and "retrieved_faqs \<noteq> []"
  shows "(insert_fault_try env = None \<longrightarrow>
            (\<exists>response. fst (ask_question env request db) = Inr response))
    \<and> (\<forall>response. fst (ask_question env request db) = Inr response \<longrightarrow>
          sources response = (if include_sources request then retrieved_faqs else [])
          \<and> (sources response = retrieved_faqs \<longleftrightarrow> include_sources request))"
proof -
  obtain ans where g: "generate_answer env (query request) retrieved_faqs = Inr ans"
    using generate_answer_returns by blast
  note t = ask_try_results [OF assms g, of db]
  show ?thesis
  proof (cases "insert_fault_try env")
    case None
    with t assms(4) show ?thesis
      by (auto simp: ask_question_return)
  next
    case (Some log_error)
    with t show ?thesis
      by (simp add: ask_question_except)
  qed
qed

text \<open>
  Claim C3 with one retrieved item, once with the flag set and once with it cleared.
\<close>

theorem ask_question_sources_witness:
  "generate_embedding env_ok (query request0) = Inr [1, 0]
   \<and> get_settings env_ok = Inr settings0
   \<and> search env_ok [1, 0] (top_k_results settings0) (similarity_threshold settings0) None
       = Inr [retrieved1]
   \<and> [retrieved1] \<noteq> []
   \<and> insert_fault_try env_ok = None
   \<and> include_sources request0
   \<and> (\<exists>response. fst (ask_question env_ok request0 db0) = Inr response
         \<and> sources response = [retrieved1])
   \<and> \<not> include_sources (request0\<lparr>include_sources := False\<rparr>)
   \<and> (\<exists>response. fst (ask_question env_ok (request0\<lparr>include_sources := False\<rparr>) db0)
           = Inr response
         \<and> sources response = [])"
proof -
  have h1: "generate_embedding env_ok (query request0) = Inr [1, 0]"
    by (simp add: generate_embedding_def env_ok_def)
  have h1': "generate_embedding env_ok (query (request0\<lparr>include_sources := False\<rparr>))
               = Inr [1, 0]"
    by (simp add: generate_embedding_def env_ok_def)
  have h2: "get_settings env_ok = Inr settings0"
    by (simp add: env_ok_def)
  have h3: "search env_ok [1, 0] (top_k_results settings0) (similarity_threshold settings0)
              None = Inr [retrieved1]"
    by (simp add: search_def to_retrieved_def env_ok_def payload1_def retrieved1_def)
  have h4: "[retrieved1] \<noteq> []"
    by simp
  have h5: "insert_fault_try env_ok = None"
    by (simp add: env_ok_def)
  have h6: "include_sources request0" "\<not> include_sources (request0\<lparr>include_sources := False\<rparr>)"
    by (simp_all add: request0_def)
  from ask_question_sources [OF h1 h2 h3 h4, of db0]
       ask_question_sources [OF h1' h2 h3 h4, of db0] h1 h2 h3 h5 h6
  show ?thesis
    by auto
qed

section \<open>Fallback of the answer generator\<close>

text \<open>
  Claim C4: for every query and every list of retrieved items, when the call to the
  generative model fails with any error, \<open>generate_answer\<close> does not propagate it: it
  returns (\<open>Inr\<close>) the first item's answer text verbatim between the heading, the
  disclaimer and the note that generation is unavailable when the list is not empty, and
  the fixed apology when it is empty. The first item is the highest-scoring one, as the
  vector store returns its hits by descending score.
\<close>

theorem generate_answer_fallback:
  assumes "chat_completions_create env
             [(''system'', SYSTEM_PROMPT),
              (''user'', build_user_prompt uq (build_context env retrieved_faqs))] = Inl e"
  shows "generate_answer env uq retrieved_faqs =
     Inr (case retrieved_faqs of
            [] \<Rightarrow> ''I apologize, but I'm unable to provide an answer at this time. Please try again later or consult with a legal professional.''
          | best_faq # rest \<Rightarrow>
              ''Based on our FAQ database:\<newline>\<newline>'' @ RetrievedFAQ.answer best_faq
              @ ''\<newline>\<newline>Note: This is general legal information from our FAQ database. For advice specific to your situation, please consult with a qualified attorney.\<newline>\<newline>(AI generation temporarily unavailable - showing direct FAQ match)'')"
proof -
  from assms have "generate_answer_try env uq retrieved_faqs = Inl e"
    by (simp add: generate_answer_try_def)
  then show ?thesis
    by (simp add: generate_answer_except get_fallback_response_def)
qed

text \<open>
  Claim C4 where the model is unreachable, for one retrieved item and for none.
\<close>

theorem generate_answer_fallback_witness:
  "chat_completions_create env_llm_down
     [(''system'', SYSTEM_PROMPT),
      (''user'', build_user_prompt ''What should I do after a car accident?''
                  (build_context env_llm_down [retrieved1]))]
     = Inl (Exception ''Connection error.'')
   \<and> generate_answer env_llm_down ''What should I do after a car accident?'' [retrieved1] =
       Inr (''Based on our FAQ database:\<newline>\<newline>Call the police and exchange insurance details.\<newline>\<newline>Note: This is general legal information from our FAQ database. For advice specific to your situation, please consult with a qualified attorney.\<newline>\<newline>(AI generation temporarily unavailable - showing direct FAQ match)'')
   \<and> chat_completions_create env_llm_down
     [(''system'', SYSTEM_PROMPT),
      (''user'', build_user_prompt ''What should I do after a car accident?''
                  (build_context env_llm_down []))]
     = Inl (Exception ''Connection error.'')
   \<and> generate_answer env_llm_down ''What should I do after a car accident?'' [] =
       Inr ''I apologize, but I'm unable to provide an answer at this time. Please try again later or consult with a legal professional.''"
proof -
  have h: "\<And>messages. chat_completions_create env_llm_down messages
             = Inl (Exception ''Connection error.'')"
    by (simp add: env_llm_down_def env_ok_def)
  from generate_answer_fallback [OF h, of "''What should I do after a car accident?''" "[retrieved1]"]
       generate_answer_fallback [OF h, of "''What should I do after a car accident?''" "[]"] h
  show ?thesis
    by (simp add: retrieved1_def)
qed

section \<open>The error path\<close>

text \<open>
  Claim C5, as the specification states it: when the embedding or the search call raises,
  the entry written has the error's string description as its answer field.

  The stored answer is not that description: the handler stores \<open>f"Error: {str(e)}"\<close>.
\<close>

theorem error_entry_is_not_bare_description:
  "generate_embedding env_embedding_down (query request0) = Inl (Exception ''Connection error.'')
   \<and> map ai_response (rows (fst (snd (ask_question env_embedding_down request0 db0))))
       = [''Error: Connection error.'']
   \<and> map ai_response (rows (fst (snd (ask_question env_embedding_down request0 db0))))
       \<noteq> [str (Exception ''Connection error.'')]"
  by (simp add: ask_question_def ask_try_def generate_embedding_def log_interaction_def
      env_embedding_down_def env_ok_def request0_def db0_def)

text \<open>
  Claim C5, amended: for every request in which the embedding or the search call raises
  an error \<open>e\<close>, the handler writes an error entry whose answer field is the text
  "Error: " followed by the error's string description, with no retrieved ids, no scores
  and the error flag set, and raises the HTTP 500 with the generic message, never the
  raw exception; if the write of that entry fails, the failure is swallowed, the log is
  unchanged and the same HTTP 500 is raised.
\<close>

theorem ask_question_upstream_error:
  assumes "generate_embedding env (query request) = Inl e
     \<or> (\<exists>query_embedding settings.
           generate_embedding env (query request) = Inr query_embedding
           \<and> get_settings env = Inr settings
           \<and> search env query_embedding (top_k_results settings)
                (similarity_threshold settings) None = Inl e)"
  shows "fst (ask_question env request db) = Inl (HTTPException 500 GENERIC_DETAIL)
   \<and> last (snd (snd (ask_question env request db))) =
       LogInteraction (query request) [] (''Error: '' @ str e) (elapsed_except env) [] True
   \<and> fst (snd (ask_question env request db)) =
       (case insert_fault_except env of
          None \<Rightarrow>
            \<lparr>rows = rows db @
               [\<lparr>row_id = Suc (last_rowid db), user_query = query request,
                 retrieved_faq_ids = [], ai_response = ''Error: '' @ str e,
                 Interaction.response_time_ms = elapsed_except env, relevance_scores = [],
                 error_occurred = True\<rparr>],
             last_rowid = Suc (last_rowid db)\<rparr>
        | Some log_error \<Rightarrow> db)"
proof -
  from assms obtain calls where "ask_try env request db = (Inl e, db, calls)"
    by (auto simp: ask_try_def Let_def)
  then show ?thesis
    by (simp add: ask_question_except)
qed

text \<open>
  Claim C5, amended, where the embedding service is down: once with the store accepting
  the error entry and once with the store refusing it.
\<close>

theorem ask_question_upstream_error_witness:
  "generate_embedding env_embedding_down (query request0) = Inl (Exception ''Connection error.'')
   \<and> insert_fault_except env_embedding_down = None
   \<and> fst (ask_question env_embedding_down request0 db0) =
       Inl (HTTPException 500
              ''An error occurred while processing your question. Please try again.'')
   \<and> fst (snd (ask_question env_embedding_down request0 db0)) =
       \<lparr>rows = [\<lparr>row_id = 1, user_query = ''What should I do after a car accident?'',
                  retrieved_faq_ids = [], ai_response = ''Error: Connection error.'',
                  Interaction.response_time_ms = 45, relevance_scores = [],
                  error_occurred = True\<rparr>],
        last_rowid = 1\<rparr>
   \<and> insert_fault_except env_all_down = Some (Exception ''database is locked'')
   \<and> generate_embedding env_all_down (query request0) = Inl (Exception ''Connection error.'')
   \<and> fst (ask_question env_all_down request0 db0) =
       Inl (HTTPException 500
              ''An error occurred while processing your question. Please try again.'')
   \<and> fst (snd (ask_question env_all_down request0 db0)) = db0"
proof -
  have h1: "generate_embedding env_embedding_down (query request0)
              = Inl (Exception ''Connection error.'')"
    by (simp add: generate_embedding_def env_embedding_down_def env_ok_def)
  have h2: "insert_fault_except env_embedding_down = None"
       "elapsed_except env_embedding_down = 45"
    by (simp_all add: env_embedding_down_def env_ok_def)
  have h3: "generate_embedding env_all_down (query request0)
              = Inl (Exception ''Connection error.'')"
    by (simp add: generate_embedding_def env_all_down_def env_embedding_down_def env_ok_def)
  have h4: "insert_fault_except env_all_down = Some (Exception ''database is locked'')"
    by (simp add: env_all_down_def)
  from ask_question_upstream_error [OF disjI1, OF h1, of db0]
       ask_question_upstream_error [OF disjI1, OF h3, of db0] h1 h2 h3 h4
  show ?thesis
    by (simp add: GENERIC_DETAIL_def request0_def db0_def)
qed

text \<open>
  Claim C10: for every failed request, the entry written on the error path stores the
  raw exception text, "Error: " followed by the exception's string description, in
  \<open>ai_response\<close>, while the HTTP response carries only the generic message. A failed
  request is one that ends in an \<open>HTTPException\<close>; \<open>e\<close> is the exception that ended the
  \<open>try\<close> block, whichever call raised it.
\<close>

theorem ask_question_error_entry_text:
  assumes "fst (ask_question env request db) = Inl h"
  shows "\<exists>e. fst (ask_try env request db) = Inl e
     \<and> h = HTTPException 500 GENERIC_DETAIL
     \<and> last (snd (snd (ask_question env request db))) =
         LogInteraction (query request) [] (''Error: '' @ str e) (elapsed_except env) [] True
     \<and> (insert_fault_except env = None \<longrightarrow>
          ai_response (last (rows (fst (snd (ask_question env request db)))))
            = ''Error: '' @ str e
          \<and> error_occurred (last (rows (fst (snd (ask_question env request db))))))"
proof -
  obtain r db1 calls where t: "ask_try env request db = (r, db1, calls)"
    by (cases "ask_try env request db") auto
  show ?thesis
  proof (cases r)
    case (Inl e)
    with t assms show ?thesis
      by (auto simp: ask_question_except)
  next
    case (Inr response)
    with t assms show ?thesis
      by (simp add: ask_question_return)
  qed
qed

text \<open>
  Claim C10 where the store refuses the entry of the \<open>try\<close> block and accepts the
  error entry: SQLite's message is what the log keeps.
\<close>

theorem ask_question_error_entry_text_witness:
  "fst (ask_question env_insert_refused request0 db0) = Inl (HTTPException 500 GENERIC_DETAIL)
   \<and> fst (ask_try env_insert_refused request0 db0) = Inl (Exception ''database is locked'')
   \<and> insert_fault_except env_insert_refused = None
   \<and> ai_response (last (rows (fst (snd (ask_question env_insert_refused request0 db0)))))
       = ''Error: database is locked''"
proof -
  have t: "fst (ask_try env_insert_refused request0 db0) = Inl (Exception ''database is locked'')"
    by (simp add: ask_try_def generate_embedding_def search_def to_retrieved_def
        generate_answer_def generate_answer_try_def log_interaction_def
        env_insert_refused_def env_ok_def settings0_def payload1_def Let_def)
  then obtain db1 calls where
    t': "ask_try env_insert_refused request0 db0 = (Inl (Exception ''database is locked''), db1, calls)"
    by (cases "ask_try env_insert_refused request0 db0") auto
  have h: "fst (ask_question env_insert_refused request0 db0)
             = Inl (HTTPException 500 GENERIC_DETAIL)"
    by (simp add: ask_question_except [OF t'])
  have f: "insert_fault_except env_insert_refused = None"
    by (simp add: env_insert_refused_def env_ok_def)
  from ask_question_error_entry_text [OF h] t f h show ?thesis
    by auto
qed

section \<open>Health check\<close>

text \<open>
  \<open>get_faq_count\<close> answers 0 when the store is unreachable, and \<open>0 >= 0\<close> holds: unless
  \<open>get_settings\<close> raises, \<open>qdrant_connected\<close> is true.
\<close>

lemma health_check_connected:
  "get_settings env = Inr settings \<Longrightarrow> qdrant_connected (health_check env coll)"
  by (simp add: health_check_def get_faq_count_def Let_def split: option.splits)

text \<open>
  Claim C6: the status of GET /api/health is "degraded" exactly when one of the two
  dependencies is available and the other is not, and "unhealthy" only when the health
  check itself throws.

  With the vector store unreachable and the API key configured the claim demands
  "degraded"; the handler answers "healthy" and reports the store as connected.
\<close>

theorem health_check_healthy_when_store_unreachable:
  "get_collection_fault env_qdrant_down = Some (Exception ''Connection refused'')
   \<and> health_check env_qdrant_down [point1] =
       \<lparr>status = ''healthy'', qdrant_connected = True, openai_configured = True,
        faqs_loaded = 0\<rparr>"
  by (simp add: health_check_def get_faq_count_def env_qdrant_down_def env_ok_def
      settings0_def)

section \<open>Idempotent startup\<close>

text \<open>
  While the store answers the count, a collection that is not empty is left alone:
  the count is the only call.
\<close>

lemma startup_indexing_skips:
  assumes "coll \<noteq> []"
    and "get_collection_fault env = None"
  shows "startup_indexing env coll = (Inr (), coll, [GetFaqCount])"
  using assms by (simp add: startup_indexing_def get_faq_count_def)

text \<open>
  Claim C8: running the startup indexing routine when the vector collection already
  contains N > 0 items performs no embedding call and no insert, so running it twice
  leaves the collection as running it once does.

  The code breaks this when \<open>client.get_collection\<close> raises: \<open>get_faq_count\<close> answers 0,
  \<open>startup_event\<close> takes the collection for empty (its comment reads "Load and index FAQs
  if collection is empty"), and the FAQs are embedded and upserted again although the
  collection holds a point.
\<close>

theorem startup_indexing_reindexes_when_count_fails:
  "[point1] \<noteq> []
   \<and> get_collection_fault env_count_fault = Some (Exception ''timed out'')
   \<and> get_faq_count env_count_fault [point1] = 0
   \<and> startup_indexing env_count_fault [point1] =
       (Inr (), [point1],
        [GetFaqCount,
         GenerateEmbeddingsBatch [''What should I do after a car accident?''],
         IndexFaqs [faq1] [[1, 0]]])"
  by (simp add: startup_indexing_def get_faq_count_def generate_embeddings_batch_def
      index_faqs_def client_upsert_def env_count_fault_def env_ok_def faq1_def point1_def
      payload1_def)

section \<open>Statistics\<close>

text \<open>Rounding to the nearest integer and to the nearest double.\<close>

lemma round_half_even_error: "\<bar>of_int (round_half_even x) - x\<bar> \<le> 1 / 2"
proof -
  have "of_int \<lfloor>x\<rfloor> \<le> x" "x < of_int \<lfloor>x\<rfloor> + 1"
    by linarith+
  then show ?thesis
    by (auto simp: round_half_even_def Let_def)
qed

lemma round_half_even_of_int: "round_half_even (of_int k) = k"
  by (simp add: round_half_even_def)

lemma two_powi_add: "(2::rat) powi (a + b) = 2 powi a * 2 powi b"
  by (simp add: power_int_add)

lemma two_powi_diff: "(2::rat) powi (a - b) = 2 powi a / 2 powi b"
  by (simp add: power_int_diff)

lemma bitlen_powi:
  assumes "0 < p"
  shows "(2::rat) powi (bitlen p - 1) \<le> of_int p" and "of_int p < (2::rat) powi bitlen p"
proof -
  from bitlen_bounds [OF assms]
  have a: "2 ^ nat (bitlen p - 1) \<le> p" and b: "p < 2 ^ nat (bitlen p)"
    by auto
  from assms have ge: "1 \<le> bitlen p"
    by (auto simp: bitlen_alt_def)
  have "(2::rat) powi (bitlen p - 1) = 2 ^ nat (bitlen p - 1)"
    using ge by (simp add: power_int_def)
  also have "\<dots> = of_int (2 ^ nat (bitlen p - 1))"
    by simp
  also have "\<dots> \<le> of_int p"
    using a by (simp only: of_int_le_iff)
  finally show "(2::rat) powi (bitlen p - 1) \<le> of_int p" .
  have "(of_int p :: rat) < of_int (2 ^ nat (bitlen p))"
    using b by (simp only: of_int_less_iff)
  also have "\<dots> = 2 powi bitlen p"
    using ge by (simp add: power_int_def)
  finally show "of_int p < (2::rat) powi bitlen p" .
qed

lemma exponent_bounds:
  assumes "x \<noteq> 0"
  shows "2 powi exponent x \<le> \<bar>x\<bar>" and "\<bar>x\<bar> < 2 powi (exponent x + 1)"
proof -
  obtain p q where pq: "quotient_of \<bar>x\<bar> = (p, q)"
    by (cases "quotient_of \<bar>x\<bar>") auto
  then have q: "0 < q" and x: "\<bar>x\<bar> = of_int p / of_int q"
    by (auto dest: quotient_of_denom_pos quotient_of_div)
  from assms x q have p: "0 < p"
    by (metis abs_0_eq abs_ge_zero div_0 of_int_0 of_int_0_less_iff
        zero_less_divide_iff linorder_neqE_linordered_idom not_le of_int_pos divide_neg_pos)
  let ?e0 = "bitlen p - bitlen q"
  note bp = bitlen_powi [OF p] and bq = bitlen_powi [OF q]
  have qpos: "(0::rat) < of_int q" using q by simp
  have lo: "(2::rat) powi (?e0 - 1) \<le> \<bar>x\<bar>"
  proof -
    have "?e0 - 1 = (bitlen p - 1) - bitlen q"
      by simp
    then have "(2::rat) powi (?e0 - 1) = 2 powi (bitlen p - 1) / 2 powi bitlen q"
      by (simp only: two_powi_diff)
    also have "\<dots> \<le> of_int p / 2 powi bitlen q"
      using bp(1) by (simp add: divide_right_mono)
    also have "\<dots> \<le> of_int p / of_int q"
      using bq(2) p qpos by (simp add: frac_le)
    finally show ?thesis by (simp add: x)
  qed
  have hi: "\<bar>x\<bar> < (2::rat) powi (?e0 + 1)"
  proof -
    have "of_int p / of_int q < (2::rat) powi bitlen p / of_int q"
      using bp(2) qpos by (simp add: divide_strict_right_mono)
    also have "\<dots> \<le> 2 powi bitlen p / 2 powi (bitlen q - 1)"
      using bq(1) by (simp add: frac_le)
    also have "\<dots> = 2 powi (bitlen p - (bitlen q - 1))"
      by (simp only: two_powi_diff)
    also have "bitlen p - (bitlen q - 1) = ?e0 + 1"
      by simp
    finally show ?thesis by (simp add: x)
  qed
  show "2 powi exponent x \<le> \<bar>x\<bar>"
    using lo by (simp add: exponent_def pq Let_def)
  show "\<bar>x\<bar> < 2 powi (exponent x + 1)"
    using hi by (auto simp: exponent_def pq Let_def not_le)
qed


lemma two_powi_pos: "(0::rat) < 2 powi e"
  by (simp add: power_int_def)

lemma to_double_error: "\<bar>to_double x - x\<bar> \<le> \<bar>x\<bar> / 2 ^ 53"
proof (cases "x = 0")
  case True
  then show ?thesis by (simp add: to_double_def)
next
  case False
  define ulp :: rat where "ulp = 2 powi (exponent x - 52)"
  define m :: rat where "m = of_int (round_half_even (x / ulp))"
  have pos: "0 < ulp"
    by (simp add: ulp_def two_powi_pos)
  have td: "to_double x = m * ulp"
    using False by (simp add: to_double_def ulp_def m_def Let_def)
  have r: "\<bar>m - x / ulp\<bar> \<le> 1 / 2"
    unfolding m_def by (rule round_half_even_error)
  have "m * ulp - x = (m - x / ulp) * ulp"
    using pos by (simp add: left_diff_distrib)
  then have "\<bar>to_double x - x\<bar> = \<bar>m - x / ulp\<bar> * ulp"
    using pos by (simp add: td abs_mult)
  also have "\<dots> \<le> 1 / 2 * ulp"
    using r pos by (simp add: mult_right_mono)
  finally have e: "\<bar>to_double x - x\<bar> \<le> ulp / 2"
    by simp
  have "ulp = 2 powi exponent x / 2 powi 52"
    by (simp only: ulp_def two_powi_diff)
  then have "ulp / 2 = 2 powi exponent x / 2 ^ 53"
    by simp
  also have "\<dots> \<le> \<bar>x\<bar> / 2 ^ 53"
    using exponent_bounds(1) [OF False] by (simp add: divide_right_mono)
  finally show ?thesis using e by simp
qed

lemma to_double_of_int:
  assumes "\<bar>k\<bar> < 2 ^ 53"
  shows "to_double (of_int k) = of_int k"
proof (cases "k = 0")
  case True
  then show ?thesis by (simp add: to_double_def)
next
  case False
  let ?x = "of_int k :: rat"
  let ?e = "exponent ?x"
  have nz: "?x \<noteq> 0" using False by simp
  have "2 powi ?e \<le> \<bar>?x\<bar>"
    by (rule exponent_bounds(1) [OF nz])
  also have "\<bar>?x\<bar> < 2 powi 53"
  proof -
    have "\<bar>?x\<bar> = of_int \<bar>k\<bar>" by simp
    also have "\<dots> < of_int (2 ^ 53)"
      using assms by (simp only: of_int_less_iff)
    finally show ?thesis by simp
  qed
  finally have "?e < 53"
    by (rule power_int_le_imp_less_exp [rotated]) simp_all
  then have le: "?e \<le> 52" by simp
  define n where "n = nat (52 - ?e)"
  have ulp: "(2::rat) powi (?e - 52) = 1 / 2 ^ n"
  proof -
    have "?e - 52 = - int n" using le by (simp add: n_def)
    then have "(2::rat) powi (?e - 52) = 2 powi (- int n)"
      by (simp only:)
    also have "\<dots> = inverse (2 powi int n)"
      by (rule power_int_minus)
    also have "\<dots> = 1 / 2 ^ n"
      by (simp add: inverse_eq_divide)
    finally show ?thesis .
  qed
  have "?x / (1 / 2 ^ n) = of_int (k * 2 ^ n)"
    by simp
  then have "round_half_even (?x / (1 / 2 ^ n)) = k * 2 ^ n"
    by (simp only: round_half_even_of_int)
  then show ?thesis
    using nz by (simp add: to_double_def Let_def ulp)
qed

lemma py_round2_two_decimals:
  "\<exists>k. py_round2 x = to_double (of_int k / 100) \<and> \<bar>of_int k / 100 - x\<bar> \<le> 1 / 200"
proof -
  have "\<bar>of_int (round_half_even (x * 100)) - x * 100\<bar> \<le> 1 / 2"
    by (rule round_half_even_error)
  then have "\<bar>of_int (round_half_even (x * 100)) / 100 - x\<bar> \<le> 1 / 200"
    by (simp add: abs_if field_simps split: if_splits)
  then show ?thesis
    unfolding py_round2_def by blast
qed

lemma double_quotient_error:
  assumes "\<bar>s\<bar> < 2 ^ 53" and "\<bar>n\<bar> < 2 ^ 53"
  shows "\<bar>double_quotient s n - of_int s / of_int n\<bar> \<le> \<bar>of_int s / of_int n\<bar> / 2 ^ 53"
  unfolding double_quotient_def
  using to_double_error [of "of_int s / of_int n"]
  by (simp only: to_double_of_int [OF assms(1)] to_double_of_int [OF assms(2)])

lemma sum_list_indicator:
  "sum_list (map (\<lambda>r. if P r then 1 else 0) xs) = int (length (filter P xs))"
  by (induction xs) simp_all

lemma py_round2_zero: "py_round2 0 = 0"
  by (simp add: py_round2_def round_half_even_def to_double_def)

lemma get_stats_total_queries: "total_queries (get_stats db) = int (length (rows db))"
  by (simp add: get_stats_def sql_count_def or_0_def)

lemma get_stats_total_errors:
  "total_errors (get_stats db) = int (length (filter error_occurred (rows db)))"
  by (simp add: get_stats_def sql_sum_def or_0_def sum_list_indicator)

lemma get_stats_avg_empty: "rows db = [] \<Longrightarrow> avg_response_time_ms (get_stats db) = 0"
  by (simp add: get_stats_def sql_avg_def or_0_def py_round2_zero)

lemma get_stats_avg:
  "rows db \<noteq> [] \<Longrightarrow>
     avg_response_time_ms (get_stats db) =
       py_round2 (double_quotient (sum_list (map Interaction.response_time_ms (rows db)))
                    (int (length (rows db))))"
  by (simp add: get_stats_def sql_avg_def or_0_def)

text \<open>The log of 40 requests.\<close>

lemma db_mean_2675_times:
  "sum_list (map Interaction.response_time_ms (rows db_mean_2675)) = 107"
  "length (rows db_mean_2675) = 40"
  "rows db_mean_2675 \<noteq> []"
  "length (filter error_occurred (rows db_mean_2675)) = 1"
  by (code_simp)+

text \<open>
  Claim C7, as the specification states it: for every state of the log store, \<open>stats()\<close>
  returns the number of entries, the arithmetic mean of \<open>response_time_ms\<close> rounded to 2
  decimals (0 if there are no entries), and the number of entries with the error flag.

  The average fails on the log of 40 requests: the mean is 2.675, which rounded to 2
  decimals is 2.68 (a tie, which goes to 2.68 whether ties go up or to the even digit).
  The double nearest to 2.675 lies below it, so \<open>round\<close> returns the double that prints
  as 2.67.
\<close>

theorem get_stats_average_of_2675_is_267:
  "arithmetic_mean (map Interaction.response_time_ms (rows db_mean_2675)) = 2675 / 1000
   \<and> mean_rounded_2_decimals (map Interaction.response_time_ms (rows db_mean_2675))
       = 268 / 100
   \<and> of_int (round_half_even
        (arithmetic_mean (map Interaction.response_time_ms (rows db_mean_2675)) * 100)) / 100
       = (268 / 100 :: rat)
   \<and> avg_response_time_ms (get_stats db_mean_2675) = to_double (267 / 100)
   \<and> avg_response_time_ms (get_stats db_mean_2675) \<noteq> to_double (268 / 100)
   \<and> avg_response_time_ms (get_stats db_mean_2675) \<noteq> 268 / 100"
  by code_simp

text \<open>
  Claim C7, amended: for every state of the log store, \<open>stats()\<close> returns a total count
  equal to the number of log entries, a total error count equal to the number of entries
  with the error flag set, and an average elapsed time that is 0 if there are no entries
  and otherwise Python's \<open>round(q, 2)\<close> of the double-precision quotient \<open>q\<close> of the sum of
  \<open>response_time_ms\<close> by the count: the double nearest to a two-decimal number within
  0.005 of \<open>q\<close>, where \<open>q\<close> differs from the arithmetic mean by at most the mean's
  \<open>2^-53\<close> part (for sums and counts below \<open>2^53\<close>). At a mean that lies halfway between
  two two-decimal numbers this can be either neighbour.
\<close>

theorem get_stats_values:
  "total_queries (get_stats db) = int (length (rows db))
   \<and> total_errors (get_stats db) = int (length (filter error_occurred (rows db)))
   \<and> (rows db = [] \<longrightarrow> avg_response_time_ms (get_stats db) = 0)
   \<and> (rows db \<noteq> [] \<longrightarrow>
        avg_response_time_ms (get_stats db) =
          py_round2 (double_quotient (sum_list (map Interaction.response_time_ms (rows db)))
                       (int (length (rows db))))
        \<and> (\<exists>k. avg_response_time_ms (get_stats db) = to_double (of_int k / 100)
              \<and> \<bar>of_int k / 100
                    - double_quotient (sum_list (map Interaction.response_time_ms (rows db)))
                        (int (length (rows db)))\<bar> \<le> 1 / 200)
        \<and> (\<bar>sum_list (map Interaction.response_time_ms (rows db))\<bar> < 2 ^ 53
             \<and> int (length (rows db)) < 2 ^ 53 \<longrightarrow>
            \<bar>double_quotient (sum_list (map Interaction.response_time_ms (rows db)))
                (int (length (rows db)))
              - arithmetic_mean (map Interaction.response_time_ms (rows db))\<bar>
            \<le> \<bar>arithmetic_mean (map Interaction.response_time_ms (rows db))\<bar> / 2 ^ 53))"
proof -
  let ?s = "sum_list (map Interaction.response_time_ms (rows db))"
  let ?n = "int (length (rows db))"
  have a: "rows db \<noteq> [] \<Longrightarrow>
      \<exists>k. avg_response_time_ms (get_stats db) = to_double (of_int k / 100)
         \<and> \<bar>of_int k / 100 - double_quotient ?s ?n\<bar> \<le> 1 / 200"
    using py_round2_two_decimals [of "double_quotient ?s ?n"]
    by (simp add: get_stats_avg)
  have b: "\<bar>?s\<bar> < 2 ^ 53 \<Longrightarrow> ?n < 2 ^ 53 \<Longrightarrow>
      \<bar>double_quotient ?s ?n - arithmetic_mean (map Interaction.response_time_ms (rows db))\<bar>
        \<le> \<bar>arithmetic_mean (map Interaction.response_time_ms (rows db))\<bar> / 2 ^ 53"
    using double_quotient_error [of ?s ?n]
    by (simp add: arithmetic_mean_def)
  from a b show ?thesis
    by (simp add: get_stats_total_queries get_stats_total_errors get_stats_avg_empty
        get_stats_avg)
qed

text \<open>
  Claim C7, amended, on the log of 40 requests and on the empty log.
\<close>

theorem get_stats_values_witness:
  "rows db_mean_2675 \<noteq> []
   \<and> \<bar>sum_list (map Interaction.response_time_ms (rows db_mean_2675))\<bar> < 2 ^ 53
   \<and> int (length (rows db_mean_2675)) < 2 ^ 53
   \<and> total_queries (get_stats db_mean_2675) = 40
   \<and> total_errors (get_stats db_mean_2675) = 1
   \<and> \<bar>double_quotient 107 40 - 2675 / 1000\<bar> \<le> (2675 / 1000) / 2 ^ 53
   \<and> rows db0 = []
   \<and> avg_response_time_ms (get_stats db0) = 0"
proof -
  note t = db_mean_2675_times
  have m: "arithmetic_mean (map Interaction.response_time_ms (rows db_mean_2675))
             = 2675 / 1000"
    by (simp add: arithmetic_mean_def t)
  have e: "rows db0 = []"
    by (simp add: db0_def)
  from get_stats_values [of db_mean_2675] get_stats_values [of db0] t m e
  show ?thesis
    by simp
qed

section \<open>The generator is only called with retrieved items\<close>

lemma build_context_nonempty:
  "faqs \<noteq> [] \<Longrightarrow> build_context env faqs \<noteq> ''No relevant FAQs were found in the database.''"
  by (cases faqs) (simp_all add: build_context_def)

lemma get_fallback_response_nonempty:
  "faqs \<noteq> [] \<Longrightarrow> get_fallback_response faqs \<noteq>
     ''I apologize, but I'm unable to provide an answer at this time. Please try again later or consult with a legal professional.''"
  by (cases faqs) (simp_all add: get_fallback_response_def)

lemma ask_question_generate_calls:
  assumes "GenerateAnswer uq faqs \<in> set (snd (snd (ask_question env request db)))"
  shows "faqs \<noteq> []"
proof -
  obtain r db1 calls where t: "ask_try env request db = (r, db1, calls)"
    by (cases "ask_try env request db") auto
  have "GenerateAnswer uq faqs \<in> set calls"
  proof (cases r)
    case (Inl e)
    with t assms show ?thesis by (simp add: ask_question_except)
  next
    case (Inr response)
    with t assms show ?thesis by (simp add: ask_question_return)
  qed
  with t show ?thesis by (rule ask_try_generate_calls)
qed

text \<open>
  Claim C9: in every request handled by POST /api/ask, \<open>generate_answer\<close> is called only
  with a non-empty list of retrieved items, so neither the empty-list context ("No
  relevant FAQs were found in the database.") nor the empty-list apology of the fallback
  is what \<open>build_context\<close> and \<open>get_fallback_response\<close> produce for a call made by the
  handler.
\<close>

theorem generate_answer_never_called_on_empty:
  "\<forall>c \<in> set (snd (snd (ask_question env request db))).
     \<forall>uq faqs. c = GenerateAnswer uq faqs \<longrightarrow>
       faqs \<noteq> []
       \<and> build_context env faqs \<noteq> ''No relevant FAQs were found in the database.''
       \<and> get_fallback_response faqs \<noteq>
           ''I apologize, but I'm unable to provide an answer at this time. Please try again later or consult with a legal professional.''"
  using ask_question_generate_calls build_context_nonempty get_fallback_response_nonempty
  by blast

text \<open>
  Claim C9 on a request for which one item is retrieved and the model is unreachable.
\<close>

theorem generate_answer_never_called_on_empty_witness:
  "GenerateAnswer (query request0) [retrieved1]
     \<in> set (snd (snd (ask_question env_llm_down request0 db0)))
   \<and> build_context env_llm_down [retrieved1] \<noteq> ''No relevant FAQs were found in the database.''
   \<and> get_fallback_response [retrieved1] \<noteq>
       ''I apologize, but I'm unable to provide an answer at this time. Please try again later or consult with a legal professional.''"
proof -
  have "snd (snd (ask_question env_llm_down request0 db0)) =
          [GenerateEmbedding (query request0), Search [1, 0] 2 (6 / 10),
           GenerateAnswer (query request0) [retrieved1],
           LogInteraction (query request0) [''faq_001'']
             (get_fallback_response [retrieved1]) 120 [85 / 100] False]"
    by (simp add: ask_question_def ask_try_def generate_embedding_def search_def
        to_retrieved_def generate_answer_def generate_answer_try_def log_interaction_def
        env_llm_down_def env_ok_def settings0_def payload1_def retrieved1_def Let_def)
  then have m: "GenerateAnswer (query request0) [retrieved1]
                  \<in> set (snd (snd (ask_question env_llm_down request0 db0)))"
    by simp
  with generate_answer_never_called_on_empty [of env_llm_down request0 db0] show ?thesis
    by blast
qed

end
